theory Spec2Isabelle
  imports Main "HOL-Library.Sublist" "HOL-Library.Multiset"
begin

section \<open>Strings as the parser sees them\<close>

text \<open>
  A document is a \<open>string\<close>: a list of code units, here the units 0..255. Inside that
  range JavaScript's \<open>\s\<close> class and \<open>trim()\<close> know seven blanks: TAB, LF, VT, FF, CR, SPACE
  and the no-break space. The counter \<open>nextId\<close> is a JavaScript number; it is modelled as a
  natural number, which is exact as long as the counter stays below \<open>2^53\<close>.
\<close>

definition isSpace :: "char \<Rightarrow> bool" where
  "isSpace c \<longleftrightarrow> c = CHR 0x09 \<or> c = CHR 0x0A \<or> c = CHR 0x0B \<or> c = CHR 0x0C \<or> c = CHR 0x0D
     \<or> c = CHR '' '' \<or> c = CHR 0xA0"

definition isDigit :: "char \<Rightarrow> bool" where
  "isDigit c \<longleftrightarrow> c = CHR ''0'' \<or> c = CHR ''1'' \<or> c = CHR ''2'' \<or> c = CHR ''3'' \<or> c = CHR ''4''
     \<or> c = CHR ''5'' \<or> c = CHR ''6'' \<or> c = CHR ''7'' \<or> c = CHR ''8'' \<or> c = CHR ''9''"

definition trim :: "string \<Rightarrow> string" where
  "trim s = rev (dropWhile isSpace (rev (dropWhile isSpace s)))"

definition startsWith :: "string \<Rightarrow> string \<Rightarrow> bool" where
  "startsWith s p \<longleftrightarrow> prefix p s"

definition endsWith :: "string \<Rightarrow> string \<Rightarrow> bool" where
  "endsWith s p \<longleftrightarrow> prefix (rev p) (rev s)"

text \<open>\<open>toLowerCase\<close>: every use in the parser compares the result with an ASCII word, and
  within the units 0..255 only \<open>A\<close>..\<open>Z\<close> lower to ASCII letters.\<close>

definition lowerChar :: "char \<Rightarrow> char" where
  "lowerChar c = (let n = (of_char c :: nat) in if 65 \<le> n \<and> n \<le> 90 then char_of (n + 32) else c)"

definition toLowerCase :: "string \<Rightarrow> string" where
  "toLowerCase s = map lowerChar s"

text \<open>\<open>s.split(sep)\<close> for a one-character separator: never empty, \<open>''''.split(sep) = ['''']\<close>.\<close>

fun split :: "char \<Rightarrow> string \<Rightarrow> string list" where
  "split sep [] = [[]]"
| "split sep (c # cs) =
     (if c = sep then [] # split sep cs
      else (case split sep cs of [] \<Rightarrow> [[c]] | p # ps \<Rightarrow> (c # p) # ps))"

fun join :: "string \<Rightarrow> string list \<Rightarrow> string" where
  "join sep [] = []"
| "join sep [x] = x"
| "join sep (x # y # ys) = x @ sep @ join sep (y # ys)"

text \<open>\<open>content.replace(/\r\n/g, '\n')\<close> and \<open>.replace(/\r/g, '\n')\<close>.\<close>

fun replaceCRLF :: "string \<Rightarrow> string" where
  "replaceCRLF [] = []"
| "replaceCRLF [c] = [c]"
| "replaceCRLF (c # d # cs) =
     (if c = CHR 0x0D \<and> d = CHR 0x0A then CHR 0x0A # replaceCRLF cs else c # replaceCRLF (d # cs))"

definition replaceCR :: "string \<Rightarrow> string" where
  "replaceCR s = map (\<lambda>c. if c = CHR 0x0D then CHR 0x0A else c) s"

text \<open>Decimal numbers: \<open>parseInt\<close> of a digit string, and the rendering of a counter in a
  template literal.\<close>

definition digitVal :: "char \<Rightarrow> nat" where
  "digitVal c = (of_char c :: nat) - 48"

definition parseInt :: "string \<Rightarrow> nat" where
  "parseInt ds = foldl (\<lambda>a c. 10 * a + digitVal c) 0 ds"

definition digitChar :: "nat \<Rightarrow> char" where
  "digitChar d = char_of (48 + d)"

fun showNat :: "nat \<Rightarrow> string" where
  "showNat n = (if n < 10 then [digitChar n] else showNat (n div 10) @ [digitChar (n mod 10)])"

declare showNat.simps [simp del]

section \<open>The patterns of the parser\<close>

text \<open>
  Each regular expression of the source is a function that returns its capture groups.
  The classes that follow one another in these patterns are disjoint (\<open>\s\<close>, \<open>\d\<close> and the
  literal that comes next), so the greedy match is the only one and \<open>takeWhile\<close> /
  \<open>dropWhile\<close> compute it. The matchers are applied to lines that \<open>split\<close> produced, which
  hold no line terminator, so \<open>(.*)$\<close> takes the rest of the line.
\<close>

text \<open>\<open>/<!--\s*next-id:\s*(\d+)\s*-->/\<close> tried at the head of \<open>s\<close>, then at every position.\<close>

definition counterAt :: "string \<Rightarrow> nat option" where
  "counterAt s =
     (if startsWith s ''<!--'' then
        (let s1 = dropWhile isSpace (drop 4 s) in
         if startsWith s1 ''next-id:'' then
           (let s2 = dropWhile isSpace (drop 8 s1);
                ds = takeWhile isDigit s2;
                s3 = dropWhile isSpace (dropWhile isDigit s2)
            in if ds \<noteq> [] \<and> startsWith s3 ''-->'' then Some (parseInt ds) else None)
         else None)
      else None)"

fun counterMatch :: "string \<Rightarrow> nat option" where
  "counterMatch [] = None"
| "counterMatch (c # cs) =
     (case counterAt (c # cs) of Some n \<Rightarrow> Some n | None \<Rightarrow> counterMatch cs)"

text \<open>\<open>/^TSK[_-]\d+$/\<close>.\<close>

definition isTskId :: "string \<Rightarrow> bool" where
  "isTskId s \<longleftrightarrow> startsWith s ''TSK'' \<and>
     (case drop 3 s of [] \<Rightarrow> False
      | sep # ds \<Rightarrow> (sep = CHR ''_'' \<or> sep = CHR ''-'') \<and> ds \<noteq> [] \<and> list_all isDigit ds)"

text \<open>\<open>/^(TSK[_-]\d+)\s+(.*)$/\<close>: the id and the rest of the title.\<close>

definition tskMatch :: "string \<Rightarrow> (string \<times> string) option" where
  "tskMatch s =
     (if startsWith s ''TSK'' then
        (case drop 3 s of [] \<Rightarrow> None
         | sep # r \<Rightarrow>
             if (sep = CHR ''_'' \<or> sep = CHR ''-'') \<and> takeWhile isDigit r \<noteq> []
                \<and> takeWhile isSpace (dropWhile isDigit r) \<noteq> []
             then Some (''TSK'' @ sep # takeWhile isDigit r, dropWhile isSpace (dropWhile isDigit r))
             else None)
      else None)"

text \<open>The property keys of the older dialect, in the order of the alternation.\<close>

definition propertyKeys :: "string list" where
  "propertyKeys = [''id'', ''due'', ''tags'', ''priority'', ''workload'', ''steps'',
     ''defaultExpanded'', ''desc'', ''ac'', ''verify'', ''files'']"

text \<open>\<open>(id|due|...|files):\<close> at the head of \<open>s\<close>: the key and what follows the colon.\<close>

fun keyColon :: "string list \<Rightarrow> string \<Rightarrow> (string \<times> string) option" where
  "keyColon [] s = None"
| "keyColon (k # ks) s =
     (if startsWith s (k @ '':'') then Some (k, drop (length k + 1) s) else keyColon ks s)"

text \<open>\<open>/^\s+- (id|...|files):\s*(.*)$/\<close> on the raw line.\<close>

definition propertyMatch :: "string \<Rightarrow> (string \<times> string) option" where
  "propertyMatch line =
     (if takeWhile isSpace line \<noteq> [] \<and> startsWith (dropWhile isSpace line) ''- '' then
        (case keyColon propertyKeys (drop 2 (dropWhile isSpace line)) of
           None \<Rightarrow> None
         | Some (k, r) \<Rightarrow> Some (k, dropWhile isSpace r))
      else None)"

text \<open>\<open>/^\s*- (id|...|files):/\<close>, as \<open>isTaskTitle\<close> uses it.\<close>

definition propertyHead :: "string \<Rightarrow> bool" where
  "propertyHead s \<longleftrightarrow> startsWith (dropWhile isSpace s) ''- ''
     \<and> keyColon propertyKeys (drop 2 (dropWhile isSpace s)) \<noteq> None"

text \<open>\<open>\[([ x])\]\<close> at the head of \<open>s\<close>: the mark and what follows the bracket.\<close>

definition checkbox :: "string \<Rightarrow> (char \<times> string) option" where
  "checkbox s =
     (case s of
        a # m # b # r \<Rightarrow>
          if a = CHR ''['' \<and> (m = CHR '' '' \<or> m = CHR ''x'') \<and> b = CHR '']'' then Some (m, r) else None
      | _ \<Rightarrow> None)"

text \<open>\<open>/^-\s+\[([ x])\]\s+(.*)$/\<close> on the trimmed line: the mark and the text.\<close>

definition checklistMatch :: "string \<Rightarrow> (char \<times> string) option" where
  "checklistMatch s =
     (case s of
        [] \<Rightarrow> None
      | d # r \<Rightarrow>
          if d = CHR ''-'' \<and> takeWhile isSpace r \<noteq> [] then
            (case checkbox (dropWhile isSpace r) of
               None \<Rightarrow> None
             | Some (m, r') \<Rightarrow>
                 if takeWhile isSpace r' \<noteq> [] then Some (m, dropWhile isSpace r') else None)
          else None)"

text \<open>\<open>/^\s{6,}- \[([ x])\]\s*(.*)$/\<close> on the raw line.\<close>

definition oldChecklistMatch :: "string \<Rightarrow> (char \<times> string) option" where
  "oldChecklistMatch line =
     (if 6 \<le> length (takeWhile isSpace line) \<and> startsWith (dropWhile isSpace line) ''- '' then
        (case checkbox (drop 2 (dropWhile isSpace line)) of
           None \<Rightarrow> None
         | Some (m, r) \<Rightarrow> Some (m, dropWhile isSpace r))
      else None)"

text \<open>\<open>/^\*\*(AC|Verify|Steps|Files):\*\*\s*(.*)$/i\<close>: the section name in lower case and
  the inline value.\<close>

fun sectionName :: "string list \<Rightarrow> string \<Rightarrow> (string \<times> string) option" where
  "sectionName [] s = None"
| "sectionName (k # ks) s =
     (if toLowerCase (take (length k) s) = k \<and> startsWith (drop (length k) s) '':**''
      then Some (k, drop (length k + 3) s) else sectionName ks s)"

definition boldSectionMatch :: "string \<Rightarrow> (string \<times> string) option" where
  "boldSectionMatch s =
     (if startsWith s ''**'' then
        (case sectionName [''ac'', ''verify'', ''steps'', ''files''] (drop 2 s) of
           None \<Rightarrow> None
         | Some (k, r) \<Rightarrow> Some (k, dropWhile isSpace r))
      else None)"

text \<open>\<open>/^!\[.*\]\(.*\)/\<close>: after \<open>![\<close> some \<open>](\<close> occurs, and a \<open>)\<close> after it.\<close>

fun bracketParen :: "string \<Rightarrow> bool" where
  "bracketParen [] = False"
| "bracketParen (c # cs) =
     ((c = CHR '']'' \<and> startsWith cs ''('' \<and> CHR '')'' \<in> set (drop 1 cs)) \<or> bracketParen cs)"

definition imageMatch :: "string \<Rightarrow> bool" where
  "imageMatch s \<longleftrightarrow> startsWith s ''!['' \<and> bracketParen (drop 2 s)"

text \<open>\<open>/\[(.*)\]/\<close>: from the first \<open>[\<close> to the last \<open>]\<close> after it.\<close>

definition tagsMatch :: "string \<Rightarrow> string option" where
  "tagsMatch v =
     (case dropWhile (\<lambda>c. c \<noteq> CHR ''['') v of
        [] \<Rightarrow> None
      | _ # body \<Rightarrow>
          if CHR '']'' \<in> set body
          then Some (rev (drop 1 (dropWhile (\<lambda>c. c \<noteq> CHR '']'') (rev body))))
          else None)"

text \<open>\<open>columnTitle.replace(/\s*\[Archived\]$/, '''')\<close> for a title that ends with the
  marker: the marker goes, and the blanks before it.\<close>

definition stripArchived :: "string \<Rightarrow> string" where
  "stripArchived t = rev (dropWhile isSpace (drop 10 (rev t)))"

section \<open>The board model\<close>

text \<open>
  The interfaces \<open>KanbanTask\<close>, \<open>KanbanColumn\<close> and \<open>KanbanBoard\<close>. An optional field is an
  \<open>option\<close>. The fields \<open>id\<close>, \<open>title\<close> and \<open>text\<close> carry the name of their record, since
  records share one name space and \<open>id\<close> and \<open>text\<close> are taken.
\<close>

record ChecklistItem =
  item_text :: string
  completed :: bool

datatype Priority = low | medium | high

datatype Workload = Easy | Normal | Hard | Extreme

datatype ChecklistKey = steps_key | ac_key | verify_key

record KanbanTask =
  task_id :: string
  task_title :: string
  description :: "string option"
  tags :: "string list option"
  priority :: "Priority option"
  workload :: "Workload option"
  dueDate :: "string option"
  startDate :: "string option"
  defaultExpanded :: "bool option"
  steps :: "ChecklistItem list option"
  ac :: "ChecklistItem list option"
  verify :: "ChecklistItem list option"
  files :: "string option"

record KanbanColumn =
  column_id :: string
  column_title :: string
  tasks :: "KanbanTask list"
  archived :: "bool option"

record KanbanBoard =
  board_title :: string
  columns :: "KanbanColumn list"
  nextId :: nat

definition priorityText :: "Priority \<Rightarrow> string" where
  "priorityText p = (case p of low \<Rightarrow> ''low'' | medium \<Rightarrow> ''medium'' | high \<Rightarrow> ''high'')"

definition workloadText :: "Workload \<Rightarrow> string" where
  "workloadText w =
     (case w of Easy \<Rightarrow> ''Easy'' | Normal \<Rightarrow> ''Normal'' | Hard \<Rightarrow> ''Hard'' | Extreme \<Rightarrow> ''Extreme'')"

definition priorityOf :: "string \<Rightarrow> Priority option" where
  "priorityOf s =
     (if s = ''low'' then Some low else if s = ''medium'' then Some medium
      else if s = ''high'' then Some high else None)"

definition workloadOf :: "string \<Rightarrow> Workload option" where
  "workloadOf s =
     (if s = ''Easy'' then Some Easy else if s = ''Normal'' then Some Normal
      else if s = ''Hard'' then Some Hard else if s = ''Extreme'' then Some Extreme else None)"

definition getList :: "ChecklistKey \<Rightarrow> KanbanTask \<Rightarrow> ChecklistItem list option" where
  "getList k t = (case k of steps_key \<Rightarrow> steps t | ac_key \<Rightarrow> ac t | verify_key \<Rightarrow> verify t)"

definition setList :: "ChecklistKey \<Rightarrow> ChecklistItem list option \<Rightarrow> KanbanTask \<Rightarrow> KanbanTask" where
  "setList k v t =
     (case k of steps_key \<Rightarrow> t\<lparr>steps := v\<rparr> | ac_key \<Rightarrow> t\<lparr>ac := v\<rparr> | verify_key \<Rightarrow> t\<lparr>verify := v\<rparr>)"

section \<open>The parser\<close>

text \<open>
  The sources hold the class \<open>MarkdownKanbanParser\<close> in two revisions. The functions here
  follow the one that reads the new dialect (blockquote metadata, bold section headers,
  ids \<open>TSK_n\<close>) and still accepts the older one: it is the revision whose ids the panel
  creates, since \<open>_getNextTaskId\<close> writes \<open>TSK_n\<close>. The other revision, the file
  \<open>markdownParser.ts\<close>, reads and writes the older dialect only.

  \<open>generateId\<close> draws from \<open>Math.random\<close>. The parser takes the sequence of draws as a
  parameter \<open>gen\<close>, the \<open>k\<close>-th call returning \<open>gen k\<close>, and counts its calls in \<open>idCalls\<close>;
  every theorem holds for every such sequence.

  The loop variables of \<open>parseMarkdown\<close> form the record \<open>pstate\<close>.
\<close>

record pstate =
  board :: KanbanBoard
  currentColumn :: "KanbanColumn option"
  currentTask :: "KanbanTask option"
  inTaskBody :: bool
  inCodeBlock :: bool
  activeListKey :: "ChecklistKey option"
  collectingDescription :: bool
  idCalls :: nat

definition blankTask :: "string \<Rightarrow> string \<Rightarrow> KanbanTask" where
  "blankTask i t =
     \<lparr>task_id = i, task_title = t, description = Some [], tags = None, priority = None,
      workload = None, dueDate = None, startDate = None, defaultExpanded = None,
      steps = None, ac = None, verify = None, files = None\<rparr>"

text \<open>\<open>finalizeCurrentTask\<close> trims a non-empty description and pushes the task on its
  column; it returns without a task or without a column.\<close>

definition trimDescription :: "KanbanTask \<Rightarrow> KanbanTask" where
  "trimDescription t =
     (case description t of
        None \<Rightarrow> t
      | Some d \<Rightarrow>
          if d = [] then t
          else if trim d = [] then t\<lparr>description := None\<rparr>
          else t\<lparr>description := Some (trim d)\<rparr>)"

definition finalizeCurrentTask :: "KanbanTask option \<Rightarrow> KanbanColumn option \<Rightarrow> KanbanColumn option" where
  "finalizeCurrentTask task column =
     (case task of
        None \<Rightarrow> column
      | Some t \<Rightarrow>
          (case column of
             None \<Rightarrow> None
           | Some c \<Rightarrow> Some (c\<lparr>tasks := tasks c @ [trimDescription t]\<rparr>)))"

definition isTaskTitle :: "string \<Rightarrow> string \<Rightarrow> bool" where
  "isTaskTitle line trimmedLine =
     (if startsWith line ''- ''
         \<and> (propertyHead trimmedLine
            \<or> (6 \<le> length (takeWhile isSpace line) \<and> startsWith (dropWhile isSpace line) ''- ''
               \<and> checkbox (drop 2 (dropWhile isSpace line)) \<noteq> None))
      then False
      else if checklistMatch trimmedLine \<noteq> None then False
      else if boldSectionMatch trimmedLine \<noteq> None then False
      else (startsWith line ''- '' \<and> \<not> startsWith line ''  '') \<or> startsWith trimmedLine ''### '')"

text \<open>The title of a task header, before the id is split off.\<close>

definition headerTitle :: "string \<Rightarrow> string" where
  "headerTitle trimmedLine =
     (if startsWith trimmedLine ''### '' then trim (drop 4 trimmedLine)
      else (let t = trim (drop 2 trimmedLine)
            in if startsWith t ''[ ] '' \<or> startsWith t ''[x] '' then trim (drop 4 t) else t))"

text \<open>\<open>parseTaskProperty\<close>: \<open>None\<close> is the source's \<open>false\<close>, otherwise the key and the
  task as the property left it.\<close>

definition parseTaskProperty :: "string \<Rightarrow> KanbanTask \<Rightarrow> (string \<times> KanbanTask) option" where
  "parseTaskProperty line task =
     (case propertyMatch line of
        None \<Rightarrow> None
      | Some (propertyName, propertyValue) \<Rightarrow>
          (let v = trim propertyValue in
           Some (propertyName,
             if propertyName = ''id'' then (if v \<noteq> [] then task\<lparr>task_id := v\<rparr> else task)
             else if propertyName = ''due'' then task\<lparr>dueDate := Some v\<rparr>
             else if propertyName = ''tags'' then
               (case tagsMatch v of
                  None \<Rightarrow> task
                | Some inner \<Rightarrow> task\<lparr>tags := Some (map trim (split CHR '','' inner))\<rparr>)
             else if propertyName = ''priority'' then
               (case priorityOf v of None \<Rightarrow> task | Some p \<Rightarrow> task\<lparr>priority := Some p\<rparr>)
             else if propertyName = ''workload'' then
               (case workloadOf v of None \<Rightarrow> task | Some w \<Rightarrow> task\<lparr>workload := Some w\<rparr>)
             else if propertyName = ''defaultExpanded'' then
               task\<lparr>defaultExpanded := Some (toLowerCase v = ''true'')\<rparr>
             else if propertyName = ''steps'' then task\<lparr>steps := Some []\<rparr>
             else if propertyName = ''ac'' then task\<lparr>ac := Some []\<rparr>
             else if propertyName = ''verify'' then task\<lparr>verify := Some []\<rparr>
             else if propertyName = ''files'' then task\<lparr>files := Some v\<rparr>
             else if propertyName = ''desc'' then
               (if v \<noteq> [] then
                  task\<lparr>description :=
                    Some (case description task of
                            None \<Rightarrow> v
                          | Some d \<Rightarrow> if d = [] then v else d @ [CHR 0x0A] @ v)\<rparr>
                else task)
             else task)))"

text \<open>\<open>parseOldChecklistItem\<close>: \<open>None\<close> is the source's \<open>false\<close>.\<close>

definition parseOldChecklistItem :: "string \<Rightarrow> KanbanTask \<Rightarrow> ChecklistKey option \<Rightarrow> KanbanTask option" where
  "parseOldChecklistItem line task listKey =
     (case listKey of
        None \<Rightarrow> None
      | Some k \<Rightarrow>
          (case getList k task of
             None \<Rightarrow> None
           | Some targetList \<Rightarrow>
               (case oldChecklistMatch line of
                  None \<Rightarrow> None
                | Some (checkmark, txt) \<Rightarrow>
                    Some (setList k
                      (Some (targetList @ [\<lparr>item_text = trim txt, completed = (checkmark = CHR ''x'')\<rparr>]))
                      task))))"

text \<open>The description grows by one trimmed line.\<close>

definition appendDescription :: "string \<Rightarrow> KanbanTask \<Rightarrow> KanbanTask" where
  "appendDescription trimmedLine task =
     task\<lparr>description :=
       Some (case description task of
               None \<Rightarrow> trimmedLine
             | Some d \<Rightarrow> if d = [] then trimmedLine else d @ [CHR 0x0A] @ trimmedLine)\<rparr>"

text \<open>The blockquote line \<open>> tags | priority\<close>.\<close>

definition metaLine :: "string \<Rightarrow> KanbanTask \<Rightarrow> KanbanTask" where
  "metaLine trimmedLine task =
     (case map trim (split CHR ''|'' (trim (drop 2 trimmedLine))) of
        [] \<Rightarrow> task
      | tagsPart # others \<Rightarrow>
          (let t1 = (if tagsPart \<noteq> []
                     then task\<lparr>tags := Some (filter (\<lambda>t. t \<noteq> []) (map trim (split CHR '','' tagsPart)))\<rparr>
                     else task)
           in case others of
                [] \<Rightarrow> t1
              | priorityPart # _ \<Rightarrow>
                  (case priorityOf (toLowerCase priorityPart) of
                     None \<Rightarrow> t1
                   | Some p \<Rightarrow> t1\<lparr>priority := Some p\<rparr>)))"

text \<open>A bold section header: the task and the list that is active after it.\<close>

definition sectionLine :: "string \<Rightarrow> string \<Rightarrow> KanbanTask \<Rightarrow> KanbanTask \<times> ChecklistKey option" where
  "sectionLine name inlineValue task =
     (if name = ''files'' then
        ((if inlineValue \<noteq> [] then task\<lparr>files := Some inlineValue\<rparr> else task), None)
      else if name = ''ac'' then
        (task\<lparr>ac := Some (case ac task of None \<Rightarrow> [] | Some l \<Rightarrow> l)\<rparr>, Some ac_key)
      else if name = ''verify'' then
        (task\<lparr>verify := Some (case verify task of None \<Rightarrow> [] | Some l \<Rightarrow> l)\<rparr>, Some verify_key)
      else
        (task\<lparr>steps := Some (case steps task of None \<Rightarrow> [] | Some l \<Rightarrow> l)\<rparr>, Some steps_key))"

definition listKeyOf :: "string \<Rightarrow> ChecklistKey option" where
  "listKeyOf k =
     (if k = ''steps'' then Some steps_key else if k = ''ac'' then Some ac_key
      else if k = ''verify'' then Some verify_key else None)"

text \<open>
  One line inside a task body (\<open>currentTask && inTaskBody\<close>). The flag of the result is the
  source's \<open>i--\<close>: the line closed the task and is presented again.
\<close>

definition bodyLine :: "pstate \<Rightarrow> KanbanTask \<Rightarrow> string \<Rightarrow> string \<Rightarrow> pstate \<times> bool" where
  "bodyLine st task line trimmedLine =
     (if trimmedLine = [] then (st, False)
      else if startsWith trimmedLine ''> '' then
        (st\<lparr>currentTask := Some (metaLine trimmedLine task),
            collectingDescription := True, activeListKey := None\<rparr>, False)
      else case boldSectionMatch trimmedLine of
        Some (name, rest) \<Rightarrow>
          (let (task', key) = sectionLine name (trim rest) task
           in (st\<lparr>currentTask := Some task', collectingDescription := False,
                   activeListKey := key\<rparr>, False))
      | None \<Rightarrow>
      if checklistMatch trimmedLine \<noteq> None \<and> activeListKey st \<noteq> None then
        (case (checklistMatch trimmedLine, activeListKey st) of
           (Some (mark, txt), Some k) \<Rightarrow>
             (st\<lparr>collectingDescription := False,
                 currentTask := Some
                   (case getList k task of
                      None \<Rightarrow> task
                    | Some targetList \<Rightarrow>
                        setList k
                          (Some (targetList @ [\<lparr>item_text = trim txt, completed = (mark = CHR ''x'')\<rparr>]))
                          task)\<rparr>, False)
         | _ \<Rightarrow> (st, False))
      else case parseTaskProperty line task of
        Some (parsedKey, task') \<Rightarrow>
          (st\<lparr>currentTask := Some task', collectingDescription := False,
              activeListKey := listKeyOf parsedKey\<rparr>, False)
      | None \<Rightarrow>
      (case parseOldChecklistItem line task (activeListKey st) of
        Some task' \<Rightarrow> (st\<lparr>currentTask := Some task'\<rparr>, False)
      | None \<Rightarrow>
      if imageMatch trimmedLine then
        (st\<lparr>currentTask := Some (appendDescription trimmedLine task)\<rparr>, False)
      else if collectingDescription st \<and> activeListKey st = None then
        (st\<lparr>currentTask := Some (appendDescription trimmedLine task)\<rparr>, False)
      else if description task \<noteq> None \<and> 4 \<le> length (takeWhile isSpace line) \<and> trimmedLine \<noteq> [] then
        (st\<lparr>currentTask := Some (appendDescription trimmedLine task)\<rparr>, False)
      else
        (st\<lparr>currentColumn := finalizeCurrentTask (Some task) (currentColumn st),
            currentTask := None, inTaskBody := False, activeListKey := None,
            collectingDescription := False\<rparr>, True)))"

text \<open>The column that a \<open>## \<close> header opens.\<close>

definition openColumn :: "string \<Rightarrow> string \<Rightarrow> KanbanColumn" where
  "openColumn i trimmedLine =
     (let columnTitle = trim (drop 3 trimmedLine)
      in if endsWith columnTitle ''[Archived]''
         then \<lparr>column_id = i, column_title = trim (stripArchived columnTitle), tasks = [],
               archived = Some True\<rparr>
         else \<lparr>column_id = i, column_title = columnTitle, tasks = [], archived = Some False\<rparr>)"

text \<open>The task that a task header opens: the id written in the header, or a drawn one.\<close>

definition openTask :: "string \<Rightarrow> string \<Rightarrow> KanbanTask" where
  "openTask i trimmedLine =
     (case tskMatch (headerTitle trimmedLine) of
        Some (tsk, rest) \<Rightarrow> blankTask tsk rest
      | None \<Rightarrow> blankTask i (headerTitle trimmedLine))"

text \<open>One turn of the \<open>for\<close> loop.\<close>

definition processLine :: "(nat \<Rightarrow> string) \<Rightarrow> pstate \<Rightarrow> string \<Rightarrow> pstate \<times> bool" where
  "processLine gen st line =
     (let trimmedLine = trim line in
      if startsWith trimmedLine ''<!--'' \<and> endsWith trimmedLine ''-->'' then (st, False)
      else if startsWith trimmedLine ''```'' then (st\<lparr>inCodeBlock := \<not> inCodeBlock st\<rparr>, False)
      else if inCodeBlock st then (st, False)
      else if startsWith trimmedLine ''# '' \<and> board_title (board st) = [] then
        (st\<lparr>board := (board st)\<lparr>board_title := trim (drop 2 trimmedLine)\<rparr>,
            currentColumn := finalizeCurrentTask (currentTask st) (currentColumn st),
            currentTask := None, inTaskBody := False, activeListKey := None,
            collectingDescription := False\<rparr>, False)
      else if startsWith trimmedLine ''## '' then
        (st\<lparr>board := (board st)\<lparr>columns := columns (board st) @
                (case finalizeCurrentTask (currentTask st) (currentColumn st) of
                   None \<Rightarrow> [] | Some c \<Rightarrow> [c])\<rparr>,
            currentColumn := Some (openColumn (gen (idCalls st)) trimmedLine),
            currentTask := None, inTaskBody := False, activeListKey := None,
            collectingDescription := False, idCalls := Suc (idCalls st)\<rparr>, False)
      else if isTaskTitle line trimmedLine then
        (case currentColumn st of
           None \<Rightarrow> (st, False)
         | Some c \<Rightarrow>
             (st\<lparr>currentColumn := finalizeCurrentTask (currentTask st) (Some c),
                 currentTask := Some (openTask (gen (idCalls st)) trimmedLine),
                 inTaskBody := True, activeListKey := None, collectingDescription := False,
                 idCalls := (if tskMatch (headerTitle trimmedLine) = None
                             then Suc (idCalls st) else idCalls st)\<rparr>, False))
      else case currentTask st of
        None \<Rightarrow> (st, False)
      | Some task \<Rightarrow> if inTaskBody st then bodyLine st task line trimmedLine else (st, False))"

text \<open>A line is presented again only by the branch that closes the open task, so the
  loop with its \<open>i--\<close> ends.\<close>

lemma bodyLine_again:
  "bodyLine st task line trimmedLine = (st', True) \<Longrightarrow> currentTask st' = None"
  by (auto simp: bodyLine_def Let_def split: if_splits option.splits prod.splits)

lemma processLine_again:
  "processLine gen st line = (st', True) \<Longrightarrow> currentTask st \<noteq> None \<and> currentTask st' = None"
  by (auto simp: processLine_def Let_def split: if_splits option.splits dest: bodyLine_again)

function parseLines :: "(nat \<Rightarrow> string) \<Rightarrow> pstate \<Rightarrow> string list \<Rightarrow> pstate" where
  "parseLines gen st [] = st"
| "parseLines gen st (line # rest) =
     (case processLine gen st line of
        (st', again) \<Rightarrow> if again then parseLines gen st' (line # rest) else parseLines gen st' rest)"
  by pat_completeness auto
termination
  by (relation "measure (\<lambda>(gen, st, ls). 2 * length ls + (if currentTask st = None then 0 else 1))")
     (auto dest: processLine_again [OF sym])

text \<open>The final pass: a task whose id is not of the form \<open>TSK_n\<close> / \<open>TSK-n\<close> takes
  \<open>TSK_<nextId>\<close>, and the counter moves on.\<close>

fun assignTasks :: "nat \<Rightarrow> KanbanTask list \<Rightarrow> KanbanTask list \<times> nat" where
  "assignTasks n [] = ([], n)"
| "assignTasks n (t # ts) =
     (if \<not> isTskId (task_id t)
      then (case assignTasks (Suc n) ts of (ts', m) \<Rightarrow> (t\<lparr>task_id := ''TSK_'' @ showNat n\<rparr> # ts', m))
      else (case assignTasks n ts of (ts', m) \<Rightarrow> (t # ts', m)))"

fun assignColumns :: "nat \<Rightarrow> KanbanColumn list \<Rightarrow> KanbanColumn list \<times> nat" where
  "assignColumns n [] = ([], n)"
| "assignColumns n (c # cs) =
     (case assignTasks n (tasks c) of
        (ts', m) \<Rightarrow> (case assignColumns m cs of (cs', k) \<Rightarrow> (c\<lparr>tasks := ts'\<rparr> # cs', k)))"

definition assignIds :: "KanbanBoard \<Rightarrow> KanbanBoard" where
  "assignIds b = (case assignColumns (nextId b) (columns b) of (cs, n) \<Rightarrow> b\<lparr>columns := cs, nextId := n\<rparr>)"

definition initialCounter :: "string \<Rightarrow> nat" where
  "initialCounter content = (case counterMatch content of None \<Rightarrow> 1 | Some n \<Rightarrow> n)"

definition initialState :: "string \<Rightarrow> pstate" where
  "initialState content =
     \<lparr>board = \<lparr>board_title = [], columns = [], nextId = initialCounter content\<rparr>,
      currentColumn = None, currentTask = None, inTaskBody = False, inCodeBlock = False,
      activeListKey = None, collectingDescription = False, idCalls = 0\<rparr>"

definition documentLines :: "string \<Rightarrow> string list" where
  "documentLines content = split (CHR 0x0A) (replaceCR (replaceCRLF content))"

text \<open>The last task and the last column are added after the loop.\<close>

definition flush :: "pstate \<Rightarrow> KanbanBoard" where
  "flush st =
     (board st)\<lparr>columns := columns (board st) @
        (case finalizeCurrentTask (currentTask st) (currentColumn st) of
           None \<Rightarrow> [] | Some c \<Rightarrow> [c])\<rparr>"

text \<open>The board as the loop leaves it, before the final pass over the ids.\<close>

definition scanBoard :: "(nat \<Rightarrow> string) \<Rightarrow> string \<Rightarrow> KanbanBoard" where
  "scanBoard gen content = flush (parseLines gen (initialState content) (documentLines content))"

definition parseMarkdown :: "(nat \<Rightarrow> string) \<Rightarrow> string \<Rightarrow> KanbanBoard" where
  "parseMarkdown gen content = assignIds (scanBoard gen content)"

section \<open>The serializer\<close>

datatype HeaderFormat = title_format | list_format

definition checklistLines :: "ChecklistItem list \<Rightarrow> string" where
  "checklistLines items =
     concat (map (\<lambda>item. ''- '' @ (if completed item then ''[x]'' else ''[ ]'') @ '' '' @ item_text item
                          @ [CHR 0x0A]) items)"

definition checklistBlock :: "string \<Rightarrow> ChecklistItem list option \<Rightarrow> string" where
  "checklistBlock label l =
     (case l of
        None \<Rightarrow> []
      | Some items \<Rightarrow>
          if items \<noteq> [] then [CHR 0x0A] @ ''**'' @ label @ '':**'' @ [CHR 0x0A] @ checklistLines items
          else [])"

definition idPrefix :: "KanbanTask \<Rightarrow> string" where
  "idPrefix task = (if task_id task \<noteq> [] \<and> isTskId (task_id task) then task_id task @ '' '' else [])"

definition metaParts :: "KanbanTask \<Rightarrow> string list" where
  "metaParts task =
     (case tags task of None \<Rightarrow> [] | Some ts \<Rightarrow> if ts \<noteq> [] then [join '', '' ts] else [])
     @ (case priority task of None \<Rightarrow> [] | Some p \<Rightarrow> [priorityText p])"

text \<open>What follows the header line of a task, up to the blank line that ends it.\<close>

definition taskBody :: "KanbanTask \<Rightarrow> string" where
  "taskBody task =
     (if metaParts task \<noteq> [] then ''> '' @ join '' | '' (metaParts task) @ [CHR 0x0A] else [])
     @ (case description task of
          None \<Rightarrow> []
        | Some d \<Rightarrow> if d \<noteq> [] \<and> trim d \<noteq> [] then [CHR 0x0A] @ trim d @ [CHR 0x0A] else [])
     @ (case dueDate task of
          None \<Rightarrow> []
        | Some d \<Rightarrow> if d \<noteq> [] then [CHR 0x0A] @ ''**Due:** '' @ d @ [CHR 0x0A] else [])
     @ (case workload task of
          None \<Rightarrow> []
        | Some w \<Rightarrow> [CHR 0x0A] @ ''**Workload:** '' @ workloadText w @ [CHR 0x0A])
     @ checklistBlock ''Steps'' (steps task)
     @ checklistBlock ''AC'' (ac task)
     @ checklistBlock ''Verify'' (verify task)
     @ (case files task of
          None \<Rightarrow> []
        | Some f \<Rightarrow> if f \<noteq> [] then [CHR 0x0A] @ ''**Files:** '' @ f @ [CHR 0x0A] else [])
     @ [CHR 0x0A]"

definition headerMark :: "HeaderFormat \<Rightarrow> string" where
  "headerMark fmt = (case fmt of title_format \<Rightarrow> ''### '' | list_format \<Rightarrow> ''- '')"

text \<open>The body of the inner loop: \<open>markdown\<close> grows by one task.\<close>

definition emitTask :: "HeaderFormat \<Rightarrow> string \<Rightarrow> KanbanTask \<Rightarrow> string" where
  "emitTask fmt markdown task =
     markdown @ headerMark fmt @ idPrefix task @ task_title task @ [CHR 0x0A] @ taskBody task"

text \<open>The body of the outer loop: \<open>markdown\<close> grows by one column.\<close>

definition emitColumn :: "HeaderFormat \<Rightarrow> string \<Rightarrow> KanbanColumn \<Rightarrow> string" where
  "emitColumn fmt markdown column =
     foldl (emitTask fmt)
       (markdown @ ''## ''
          @ (if archived column = Some True then column_title column @ '' [Archived]''
             else column_title column)
          @ [CHR 0x0A, CHR 0x0A])
       (tasks column)"

definition generateMarkdown :: "KanbanBoard \<Rightarrow> HeaderFormat \<Rightarrow> string" where
  "generateMarkdown b fmt =
     foldl (emitColumn fmt)
       (''<!-- next-id: '' @ showNat (nextId b) @ '' -->'' @ [CHR 0x0A]
          @ (if board_title b \<noteq> [] then ''# '' @ board_title b @ [CHR 0x0A, CHR 0x0A] else []))
       (columns b)"

section \<open>The mutations of the panel\<close>

text \<open>
  Each mutation of \<open>KanbanWebviewPanel\<close> is the function that its action applies to the
  board the panel holds. \<open>find\<close> and \<open>findIndex\<close> stop at the first hit, and the object they
    return is changed in place: \<open>updateFirst\<close> is that change. Indices are integers, as the
  webview sends them.
\<close>

fun updateFirst :: "('a \<Rightarrow> bool) \<Rightarrow> ('a \<Rightarrow> 'a) \<Rightarrow> 'a list \<Rightarrow> 'a list" where
  "updateFirst P f [] = []"
| "updateFirst P f (x # xs) = (if P x then f x # xs else x # updateFirst P f xs)"

fun findIndex :: "('a \<Rightarrow> bool) \<Rightarrow> 'a list \<Rightarrow> nat option" where
  "findIndex P [] = None"
| "findIndex P (x # xs) =
     (if P x then Some 0 else (case findIndex P xs of None \<Rightarrow> None | Some i \<Rightarrow> Some (Suc i)))"

text \<open>\<open>Array.prototype.splice\<close>: a negative start counts from the end, and the start is
  clamped to the array.\<close>

definition spliceStart :: "int \<Rightarrow> 'a list \<Rightarrow> nat" where
  "spliceStart i xs =
     (if i < 0 then nat (max (int (length xs) + i) 0) else nat (min i (int (length xs))))"

text \<open>\<open>xs.splice(i, 1)[0]\<close>: the element taken out, if there is one at the start, and the
  array that is left.\<close>

definition spliceOut :: "int \<Rightarrow> 'a list \<Rightarrow> 'a option \<times> 'a list" where
  "spliceOut i xs =
     (let k = spliceStart i xs
      in if k < length xs then (Some (xs ! k), take k xs @ drop (Suc k) xs) else (None, xs))"

text \<open>\<open>xs.splice(i, 0, x)\<close>.\<close>

definition spliceIn :: "int \<Rightarrow> 'a \<Rightarrow> 'a list \<Rightarrow> 'a list" where
  "spliceIn i x xs = (let k = spliceStart i xs in take k xs @ [x] @ drop k xs)"

definition findColumn :: "string \<Rightarrow> KanbanBoard \<Rightarrow> KanbanColumn option" where
  "findColumn columnId b = find (\<lambda>col. column_id col = columnId) (columns b)"

text \<open>The column that \<open>findColumn\<close> returned, changed in place.\<close>

definition updateColumn :: "string \<Rightarrow> (KanbanColumn \<Rightarrow> KanbanColumn) \<Rightarrow> KanbanBoard \<Rightarrow> KanbanBoard" where
  "updateColumn columnId f b =
     b\<lparr>columns := updateFirst (\<lambda>col. column_id col = columnId) f (columns b)\<rparr>"

text \<open>\<open>findTask\<close>: the column, the task and its index.\<close>

definition findTask :: "string \<Rightarrow> string \<Rightarrow> KanbanBoard \<Rightarrow> (KanbanColumn \<times> KanbanTask \<times> nat) option" where
  "findTask columnId taskId b =
     (case findColumn columnId b of
        None \<Rightarrow> None
      | Some column \<Rightarrow>
          (case findIndex (\<lambda>task. task_id task = taskId) (tasks column) of
             None \<Rightarrow> None
           | Some taskIndex \<Rightarrow> Some (column, tasks column ! taskIndex, taskIndex)))"



text \<open>\<open>_getNextTaskId\<close> on a panel that holds a board: the id and the board with the
  counter moved on.\<close>

definition getNextTaskId :: "KanbanBoard \<Rightarrow> string \<times> KanbanBoard" where
  "getNextTaskId b = (''TSK_'' @ showNat (nextId b), b\<lparr>nextId := Suc (nextId b)\<rparr>)"

text \<open>The \<open>taskData\<close> of an add or edit request.\<close>

record TaskData =
  td_title :: string
  td_description :: "string option"
  td_tags :: "string list option"
  td_priority :: "Priority option"
  td_workload :: "Workload option"
  td_dueDate :: "string option"
  td_defaultExpanded :: "bool option"
  td_steps :: "ChecklistItem list option"

definition newTask :: "string \<Rightarrow> TaskData \<Rightarrow> KanbanTask" where
  "newTask i taskData =
     \<lparr>task_id = i, task_title = td_title taskData, description = td_description taskData,
      tags = Some (case td_tags taskData of None \<Rightarrow> [] | Some ts \<Rightarrow> ts),
      priority = td_priority taskData, workload = td_workload taskData,
      dueDate = td_dueDate taskData, startDate = None,
      defaultExpanded = td_defaultExpanded taskData,
      steps = Some (case td_steps taskData of None \<Rightarrow> [] | Some l \<Rightarrow> l),
      ac = None, verify = None, files = None\<rparr>"

definition addTask :: "string \<Rightarrow> TaskData \<Rightarrow> KanbanBoard \<Rightarrow> KanbanBoard" where
  "addTask columnId taskData b =
     (case findColumn columnId b of
        None \<Rightarrow> b
      | Some column \<Rightarrow>
          (case getNextTaskId b of
             (i, b') \<Rightarrow> updateColumn columnId (\<lambda>c. c\<lparr>tasks := tasks c @ [newTask i taskData]\<rparr>) b'))"










text \<open>
  \<open>moveColumn\<close> takes the column out with \<open>splice(fromIndex, 1)[0]\<close> and puts it in with
  \<open>splice(toIndex, 0, column)\<close>. When \<open>fromIndex\<close> is at or beyond the end nothing is taken
  out, \<open>column\<close> is \<open>undefined\<close> and \<open>undefined\<close> goes into the array: no board of the model
  has such a column, and the serializer that runs next throws on it. That outcome is
  \<open>Inl UndefinedColumn\<close>.
\<close>

datatype MutationError = UndefinedColumn

definition moveColumn :: "int \<Rightarrow> int \<Rightarrow> KanbanBoard \<Rightarrow> MutationError + KanbanBoard" where
  "moveColumn fromIndex toIndex b =
     (if fromIndex = toIndex then Inr b
      else (case spliceOut fromIndex (columns b) of
              (None, rest) \<Rightarrow> Inl UndefinedColumn
            | (Some column, rest) \<Rightarrow> Inr (b\<lparr>columns := spliceIn toIndex column rest\<rparr>)))"


text \<open>All tasks of a board in column/task order, and their ids.\<close>

definition boardTasks :: "KanbanBoard \<Rightarrow> KanbanTask list" where
  "boardTasks b = concat (map tasks (columns b))"


section \<open>The concrete scenario\<close>

text \<open>
  Claim C2. Parsing the document

  \<^verbatim>\<open><!-- next-id: 3 -->\<close>, \<^verbatim>\<open># My Board\<close>, \<^verbatim>\<open>## Todo\<close>, \<^verbatim>\<open>### TSK_1 Write spec\<close>,
  \<^verbatim>\<open>> backend, urgent | high\<close>, an empty line, \<^verbatim>\<open>This needs doing.\<close>, \<^verbatim>\<open>**Steps:**\<close>,
  \<^verbatim>\<open>- [x] outline\<close>, \<^verbatim>\<open>- [ ] write\<close>

  (one line each) yields the board titled "My Board" with the single column "Todo", not
  archived, holding the single task TSK_1 "Write spec" with the tags backend and urgent,
  priority high, the description "This needs doing.", the steps outline (done) and write
  (open), and the counter 3. The column id is the first draw of the id generator.
\<close>

theorem scenario_board:
  "parseMarkdown gen
     ''<!-- next-id: 3 -->\<newline># My Board\<newline>## Todo\<newline>### TSK_1 Write spec\<newline>> backend, urgent | high\<newline>\<newline>This needs doing.\<newline>**Steps:**\<newline>- [x] outline\<newline>- [ ] write''
   = \<lparr>board_title = ''My Board'',
      columns =
        [\<lparr>column_id = gen 0, column_title = ''Todo'',
          tasks =
            [\<lparr>task_id = ''TSK_1'', task_title = ''Write spec'',
              description = Some ''This needs doing.'',
              tags = Some [''backend'', ''urgent''], priority = Some high,
              workload = None, dueDate = None, startDate = None, defaultExpanded = None,
              steps = Some [\<lparr>item_text = ''outline'', completed = True\<rparr>,
                            \<lparr>item_text = ''write'', completed = False\<rparr>],
              ac = None, verify = None, files = None\<rparr>],
          archived = Some False\<rparr>],
      nextId = 3\<rparr>"
  by code_simp

section \<open>The header style\<close>

text \<open>
  The output of the serializer cut into segments, independent of the header style: the
  texts of the task headers, and everything else.
\<close>

datatype segment = Header string | Other string

definition render :: "string \<Rightarrow> segment \<Rightarrow> string" where
  "render mark seg = (case seg of Header t \<Rightarrow> mark @ t @ [CHR 0x0A] | Other s \<Rightarrow> s)"

definition taskSegments :: "KanbanTask \<Rightarrow> segment list" where
  "taskSegments task = [Header (idPrefix task @ task_title task), Other (taskBody task)]"

definition columnSegments :: "KanbanColumn \<Rightarrow> segment list" where
  "columnSegments column =
     Other (''## '' @ (if archived column = Some True then column_title column @ '' [Archived]''
                       else column_title column) @ [CHR 0x0A, CHR 0x0A])
     # concat (map taskSegments (tasks column))"

definition boardSegments :: "KanbanBoard \<Rightarrow> segment list" where
  "boardSegments b =
     Other (''<!-- next-id: '' @ showNat (nextId b) @ '' -->'' @ [CHR 0x0A]
            @ (if board_title b \<noteq> [] then ''# '' @ board_title b @ [CHR 0x0A, CHR 0x0A] else []))
     # concat (map columnSegments (columns b))"

definition headerTexts :: "segment list \<Rightarrow> string list" where
  "headerTexts segs = concat (map (\<lambda>seg. case seg of Header t \<Rightarrow> [t] | Other s \<Rightarrow> []) segs)"

lemma foldl_emitTask:
  "foldl (emitTask fmt) md ts = md @ concat (map (render (headerMark fmt)) (concat (map taskSegments ts)))"
  by (induction ts arbitrary: md) (simp_all add: emitTask_def taskSegments_def render_def)

lemma foldl_emitColumn:
  "foldl (emitColumn fmt) md cs = md @ concat (map (render (headerMark fmt)) (concat (map columnSegments cs)))"
  by (induction cs arbitrary: md)
     (simp_all add: emitColumn_def foldl_emitTask columnSegments_def render_def)

lemma generateMarkdown_segments:
  "generateMarkdown b fmt = concat (map (render (headerMark fmt)) (boardSegments b))"
  by (simp add: generateMarkdown_def foldl_emitColumn boardSegments_def render_def)

lemma headerTexts_append: "headerTexts (xs @ ys) = headerTexts xs @ headerTexts ys"
  by (simp add: headerTexts_def)

lemma headerTexts_tasks:
  "headerTexts (concat (map taskSegments ts)) = map (\<lambda>t. idPrefix t @ task_title t) ts"
  by (induction ts) (simp_all add: headerTexts_def taskSegments_def)

lemma headerTexts_columns:
  "headerTexts (concat (map columnSegments cs)) = map (\<lambda>t. idPrefix t @ task_title t) (concat (map tasks cs))"
proof (induction cs)
  case Nil
  show ?case by (simp add: headerTexts_def)
next
  case (Cons c cs)
  have "headerTexts (columnSegments c) = map (\<lambda>t. idPrefix t @ task_title t) (tasks c)"
    using headerTexts_tasks [of "tasks c"] by (simp add: columnSegments_def headerTexts_def)
  with Cons show ?case by (simp add: headerTexts_append)
qed

text \<open>
  Claim C9. For every board the output in heading style and the output in list style are
  the concatenation of one and the same sequence of segments. A segment is the text of a
  task header, which the first renders as \<open>### text\<close> and the second as \<open>- text\<close> (each
  followed by a line feed), or any other piece of output, which both render as it is.
  There is one header segment for each task of the board, in column/task order, and it
  holds the id prefix and the title of the task.
\<close>

theorem header_style_only:
  "generateMarkdown b title_format = concat (map (render ''### '') (boardSegments b))
   \<and> generateMarkdown b list_format = concat (map (render ''- '') (boardSegments b))
   \<and> headerTexts (boardSegments b) = map (\<lambda>t. idPrefix t @ task_title t) (boardTasks b)"
proof -
  have "headerTexts (boardSegments b) = map (\<lambda>t. idPrefix t @ task_title t) (boardTasks b)"
    using headerTexts_columns [of "columns b"]
    by (simp add: boardSegments_def boardTasks_def headerTexts_def)
  then show ?thesis
    using generateMarkdown_segments [of b title_format] generateMarkdown_segments [of b list_format]
    by (simp add: headerMark_def)
qed

section \<open>Creating tasks\<close>



















section \<open>The line loop\<close>





section \<open>Code fences\<close>











section \<open>Task headers before the first column\<close>







section \<open>The allocation of ids\<close>















section \<open>Archived columns\<close>






































section \<open>The counter comment\<close>









section \<open>Mutations and the ids of the tasks\<close>

lemma find_updateFirst:
  "find P cs = None \<Longrightarrow> updateFirst P f cs = cs"
  by (induction cs) (auto split: if_splits)


lemma findIndex_None_updateFirst: "findIndex P xs = None \<Longrightarrow> updateFirst P f xs = xs"
  by (induction xs) (auto split: if_splits option.splits)


































section \<open>Requests that miss their target\<close>

lemma updateColumn_missing: "findColumn columnId b = None \<Longrightarrow> updateColumn columnId f b = b"
  by (simp add: updateColumn_def findColumn_def find_updateFirst)

lemma findTask_None:
  "findTask columnId taskId b = None \<longleftrightarrow>
     findColumn columnId b = None
     \<or> (\<exists>column. findColumn columnId b = Some column
           \<and> findIndex (\<lambda>task. task_id task = taskId) (tasks column) = None)"
  by (auto simp: findTask_def split: option.splits)





text \<open>\<open>moveColumn\<close> has no test of its indices. A \<open>fromIndex\<close> at or beyond the end takes no
  column out and puts \<open>undefined\<close> into the array.\<close>

lemma moveColumn_from_outside:
  "int (length (columns b)) \<le> fromIndex \<Longrightarrow> fromIndex \<noteq> toIndex \<Longrightarrow>
   moveColumn fromIndex toIndex b = Inl UndefinedColumn"
  by (simp add: moveColumn_def spliceOut_def spliceStart_def Let_def)

section \<open>Saving and loading again\<close>

text \<open>A task as the add-task form sends it: a title and a description, no tags and no
  priority.\<close>

definition reportData :: TaskData where
  "reportData =
     \<lparr>td_title = ''Write report'', td_description = Some ''Two pages.'', td_tags = None,
      td_priority = None, td_workload = None, td_dueDate = None, td_defaultExpanded = None,
      td_steps = None\<rparr>"

definition todoBoard :: KanbanBoard where
  "todoBoard =
     \<lparr>board_title = ''B'',
      columns = [\<lparr>column_id = ''c1'', column_title = ''Todo'', tasks = [], archived = Some False\<rparr>],
      nextId = 1\<rparr>"

text \<open>
  Claim C1 asks that parsing and serializing a text which the serializer wrote gives the
  same text back. The code does not do that. The serializer writes the description of a
  task as a paragraph after the header in every case; the parser collects such a
  paragraph only after a blockquote line \<open>> tags | priority\<close>. A task without tags and
  without priority has no such line, so on loading the paragraph closes the task and is
  dropped. Likewise the serializer writes \<open>**Due:**\<close> for a due date, and the parser has
  no rule for that line.

  The first two equations: the text saved after creating the task, and the text saved
  after loading that text. The last two: the same for a document of the older dialect
  with a due date, first pass and second pass. The ids that the generator draws are
  \<open>c0\<close>, \<open>c1\<close>, ... here.
\<close>

theorem reload_drops_description:
  "generateMarkdown (addTask ''c1'' reportData todoBoard) title_format
     = ''<!-- next-id: 2 -->\<newline># B\<newline>\<newline>## Todo\<newline>\<newline>### TSK_1 Write report\<newline>\<newline>Two pages.\<newline>\<newline>''
   \<and> generateMarkdown
       (parseMarkdown (\<lambda>n. ''c'' @ showNat n)
          ''<!-- next-id: 2 -->\<newline># B\<newline>\<newline>## Todo\<newline>\<newline>### TSK_1 Write report\<newline>\<newline>Two pages.\<newline>\<newline>'')
       title_format
     = ''<!-- next-id: 2 -->\<newline># B\<newline>\<newline>## Todo\<newline>\<newline>### TSK_1 Write report\<newline>\<newline>''
   \<and> generateMarkdown (parseMarkdown (\<lambda>n. ''c'' @ showNat n) ''## A\<newline>- T\<newline>  - due: 2024-01-01'') title_format
     = ''<!-- next-id: 2 -->\<newline>## A\<newline>\<newline>### TSK_1 T\<newline>\<newline>**Due:** 2024-01-01\<newline>\<newline>''
   \<and> generateMarkdown
       (parseMarkdown (\<lambda>n. ''c'' @ showNat n)
          ''<!-- next-id: 2 -->\<newline>## A\<newline>\<newline>### TSK_1 T\<newline>\<newline>**Due:** 2024-01-01\<newline>\<newline>'')
       title_format
     = ''<!-- next-id: 2 -->\<newline>## A\<newline>\<newline>### TSK_1 T\<newline>\<newline>''"
  by code_simp

end
